theory Spec2Isabelle
  imports Main
begin

section \<open>DubeBox: a Flask front end over a Redis store (app.py)\<close>

text \<open>
  The program is one module: three module-level assignments that build the Redis client
  from the process environment, and three Flask views (\<open>home\<close>, \<open>set_value\<close>,
  \<open>get_value\<close>). Python strings are modelled as \<^typ>\<open>string\<close>, read as the UTF-8
  bytes of the text, so the two non-ASCII characters of the source (the rocket of the
  welcome message and the arrow of the confirmation message) are byte sequences.
\<close>

subsection \<open>Values, errors and responses\<close>

text \<open>
  The two exceptions the module can raise: \<open>redis.exceptions.ConnectionError\<close> from a
  client call when the server cannot be reached, and \<open>ValueError\<close> from \<open>int(...)\<close>.
  No view catches either.
\<close>

datatype error = ConnectionError | ValueError

datatype json = JNull | JString string | JObject "(string \<times> json) list"

record response =
  status :: nat
  body :: json

text \<open>\<open>jsonify(d)\<close>: a response with status 200 whose body is the dictionary \<open>d\<close>.\<close>

definition jsonify :: "(string \<times> json) list \<Rightarrow> response" where
  "jsonify d = \<lparr>status = 200, body = JObject d\<rparr>"

text \<open>
  What Flask sends for a view's outcome: the view's response, or status 500 when the
  view raised an exception it did not catch.
\<close>

definition http_status :: "error + response \<Rightarrow> nat" where
  "http_status res = (case res of Inl e \<Rightarrow> 500 | Inr resp \<Rightarrow> status resp)"

subsection \<open>Configuration from the environment\<close>

text \<open>
  \<open>os.getenv(name, default)\<close> returns the variable's string when it is set and the
  default, whatever its type, when it is not. The default of the port is the integer
  \<open>6379\<close>, so the value handed to \<open>int\<close> is a string or an integer.
\<close>

type_synonym environ = "string \<rightharpoonup> string"

datatype pyval = PStr string | PInt int

definition getenv :: "environ \<Rightarrow> string \<Rightarrow> pyval \<Rightarrow> pyval" where
  "getenv env name dflt = (case env name of None \<Rightarrow> dflt | Some s \<Rightarrow> PStr s)"

text \<open>
  \<open>int(x)\<close>: an integer is returned as it is; a string is read by Python's own reader
  of integer literals, which is not part of the repository and is the parameter
  \<open>to_int\<close> (\<open>None\<close> when the reader raises \<open>ValueError\<close>).
\<close>

definition py_int :: "(string \<Rightarrow> int option) \<Rightarrow> pyval \<Rightarrow> error + int" where
  "py_int to_int x =
     (case x of
        PInt i \<Rightarrow> Inr i
      | PStr s \<Rightarrow> (case to_int s of None \<Rightarrow> Inl ValueError | Some i \<Rightarrow> Inr i))"

definition redis_host :: "environ \<Rightarrow> pyval" where
  "redis_host env = getenv env ''REDIS_HOST'' (PStr ''localhost'')"

definition redis_port :: "(string \<Rightarrow> int option) \<Rightarrow> environ \<Rightarrow> error + int" where
  "redis_port to_int env = py_int to_int (getenv env ''REDIS_PORT'' (PInt 6379))"

text \<open>
  \<open>r = redis.Redis(host=redis_host, port=redis_port, decode_responses=True)\<close>: the
  constructor records the address and opens no connection. The module fails to load
  when \<open>redis_port\<close> raised.
\<close>

record client =
  host :: pyval
  port :: int

definition r :: "(string \<Rightarrow> int option) \<Rightarrow> environ \<Rightarrow> error + client" where
  "r to_int env =
     (case redis_port to_int env of
        Inl e \<Rightarrow> Inl e
      | Inr p \<Rightarrow> Inr \<lparr>host = redis_host env, port = p\<rparr>)"

subsection \<open>The Redis server behind the client\<close>

text \<open>
  The server is outside the repository. Its state is the key space (with
  \<open>decode_responses=True\<close> keys and values are strings) and whether the client can
  reach it. \<open>r.set(key, value)\<close> overwrites the key and returns \<open>True\<close>;
  \<open>r.get(key)\<close> returns the value or \<open>None\<close>; both raise \<open>ConnectionError\<close> and
  leave the key space alone when the server cannot be reached.
\<close>

record backend =
  reachable :: bool
  data :: "string \<rightharpoonup> string"

definition redis_set :: "string \<Rightarrow> string \<Rightarrow> backend \<Rightarrow> (error + bool) \<times> backend" where
  "redis_set k v b =
     (if reachable b then (Inr True, b\<lparr>data := (data b)(k \<mapsto> v)\<rparr>)
      else (Inl ConnectionError, b))"

definition redis_get :: "string \<Rightarrow> backend \<Rightarrow> (error + string option) \<times> backend" where
  "redis_get k b =
     (if reachable b then (Inr (data b k), b) else (Inl ConnectionError, b))"

subsection \<open>The three views\<close>

definition rocket :: string where
  "rocket = [CHR 0xF0, CHR 0x9F, CHR 0x9A, CHR 0x80]"

definition arrow :: string where
  "arrow = [CHR 0xE2, CHR 0x86, CHR 0x92]"

definition home :: "backend \<Rightarrow> (error + response) \<times> backend" where
  "home b =
     (Inr (jsonify [(''message'', JString (''Welcome to DubeBox '' @ rocket)),
                    (''status'', JString ''running'')]), b)"

definition set_value :: "string \<Rightarrow> string \<Rightarrow> backend \<Rightarrow> (error + response) \<times> backend" where
  "set_value key val b =
     (case redis_set key val b of
        (Inl e, b') \<Rightarrow> (Inl e, b')
      | (Inr ok, b') \<Rightarrow>
          (Inr (jsonify [(''message'',
                  JString (''Stored '' @ key @ '' '' @ arrow @ '' '' @ val @ '' in Redis''))]),
           b'))"

definition get_value :: "string \<Rightarrow> backend \<Rightarrow> (error + response) \<times> backend" where
  "get_value key b =
     (case redis_get key b of
        (Inl e, b') \<Rightarrow> (Inl e, b')
      | (Inr val, b') \<Rightarrow>
          (Inr (jsonify [(''key'', JString key),
                         (''value'', (case val of None \<Rightarrow> JNull | Some v \<Rightarrow> JString v))]),
           b'))"

subsection \<open>URL routing\<close>

text \<open>
  The module declares three rules, \<open>@app.route('/')\<close>,
  \<open>@app.route('/set/<key>/<value>')\<close> and \<open>@app.route('/get/<key>')\<close>, and
  \<open>Flask(__name__)\<close> adds the rule \<open>/static/<path:filename>\<close> of its own. A
  \<open>GET\<close> request is given by the text of its path after the leading slash, so every
  string is a request and \<open>GET /set//x\<close> is the string \<open>set//x\<close>.

  Matching is the router's, not the repository's; it is written out as far as the
  rules above need it. Further leading slashes are dropped and the path is cut at its
  slashes into parts. A \<open><key>\<close> or \<open><value>\<close> of the default converter takes
  exactly one part, which must not be empty; \<open><path:filename>\<close> takes all the
  remaining parts, joined.
\<close>

definition lstrip :: "string \<Rightarrow> string" where
  "lstrip p = dropWhile (\<lambda>c. c = CHR ''/'') p"

fun split_path :: "string \<Rightarrow> string list" where
  "split_path [] = [[]]"
| "split_path (c # cs) =
     (if c = CHR ''/'' then [] # split_path cs
      else (c # hd (split_path cs)) # tl (split_path cs))"

fun join_path :: "string list \<Rightarrow> string" where
  "join_path [] = []"
| "join_path [s] = s"
| "join_path (s # t # ss) = s @ CHR ''/'' # join_path (t # ss)"

text \<open>
  The pattern of the \<open>path\<close> converter: a first character that is not a slash, then
  any characters but a line feed.
\<close>

definition static_ok :: "string \<Rightarrow> bool" where
  "static_ok t = (t \<noteq> [] \<and> hd t \<noteq> CHR ''/'' \<and> CHR 0x0A \<notin> set (tl t))"

datatype view = HomeView | SetView string string | GetView string | StaticView string

fun match_rule :: "string list \<Rightarrow> view option" where
  "match_rule [] = None"
| "match_rule [s] = (if s = [] then Some HomeView else None)"
| "match_rule (s # k # ps) =
     (if s = ''set'' \<and> k \<noteq> [] \<and> length ps = 1 \<and> hd ps \<noteq> [] then Some (SetView k (hd ps))
      else if s = ''get'' \<and> k \<noteq> [] \<and> ps = [] then Some (GetView k)
      else if s = ''static'' \<and> static_ok (join_path (k # ps))
        then Some (StaticView (join_path (k # ps)))
      else None)"

text \<open>
  A path that matches no rule is tried once more with its double slashes merged (each
  pair of adjacent slashes, from the left, becomes one slash); when the merged path
  matches, the answer is a redirect to it (status 308), and otherwise 404 Not Found.
\<close>

fun merge_slashes :: "string \<Rightarrow> string" where
  "merge_slashes (a # b # cs) =
     (if a = CHR ''/'' \<and> b = CHR ''/'' then CHR ''/'' # merge_slashes cs
      else a # merge_slashes (b # cs))"
| "merge_slashes cs = cs"

datatype reply = Served "error + response" | Redirect string | NotFound

definition reply_status :: "reply \<Rightarrow> nat" where
  "reply_status rp =
     (case rp of Served res \<Rightarrow> http_status res | Redirect p \<Rightarrow> 308 | NotFound \<Rightarrow> 404)"

text \<open>
  Calling the view a rule names. The static rule serves files of the directory
  \<open>static\<close>, which the repository does not have, so its answer is 404.
\<close>

fun call_view :: "view \<Rightarrow> backend \<Rightarrow> reply \<times> backend" where
  "call_view HomeView b = (Served (fst (home b)), snd (home b))"
| "call_view (SetView k v) b = (Served (fst (set_value k v b)), snd (set_value k v b))"
| "call_view (GetView k) b = (Served (fst (get_value k b)), snd (get_value k b))"
| "call_view (StaticView f) b = (NotFound, b)"

definition dispatch :: "string \<Rightarrow> backend \<Rightarrow> reply \<times> backend" where
  "dispatch path b =
     (case match_rule (split_path (lstrip path)) of
        Some v \<Rightarrow> call_view v b
      | None \<Rightarrow>
          (case match_rule (split_path (merge_slashes (lstrip path))) of
             Some v \<Rightarrow> (Redirect (CHR ''/'' # merge_slashes (lstrip path)), b)
           | None \<Rightarrow> (NotFound, b)))"

text \<open>A reachable server that holds no key.\<close>

definition empty_store :: backend where
  "empty_store = \<lparr>reachable = True, data = Map.empty\<rparr>"

subsection \<open>The cache layer of the specification\<close>














section \<open>Properties\<close>

subsection \<open>Helper facts\<close>

lemma set_value_reachable:
  "reachable b \<Longrightarrow>
   set_value k v b =
     (Inr (jsonify [(''message'',
             JString (''Stored '' @ k @ '' '' @ arrow @ '' '' @ v @ '' in Redis''))]),
      b\<lparr>data := (data b)(k \<mapsto> v)\<rparr>)"
  by (simp add: set_value_def redis_set_def)

lemma set_value_unreachable:
  "\<not> reachable b \<Longrightarrow> set_value k v b = (Inl ConnectionError, b)"
  by (simp add: set_value_def redis_set_def)

lemma get_value_reachable:
  "reachable b \<Longrightarrow>
   get_value k b =
     (Inr (jsonify [(''key'', JString k),
                    (''value'', (case data b k of None \<Rightarrow> JNull | Some v \<Rightarrow> JString v))]),
      b)"
  by (simp add: get_value_def redis_get_def)

lemma get_value_unreachable:
  "\<not> reachable b \<Longrightarrow> get_value k b = (Inl ConnectionError, b)"
  by (simp add: get_value_def redis_get_def)

lemma split_path_no_slash: "CHR ''/'' \<notin> set x \<Longrightarrow> split_path x = [x]"
  by (induction x) auto

lemma merge_slashes_no_slash: "CHR ''/'' \<notin> set x \<Longrightarrow> merge_slashes x = x"
  by (induction x rule: merge_slashes.induct) auto

lemma split_empty_key: "split_path (''set//'' @ x) = ''set'' # [] # split_path x"
  by simp

lemma lstrip_empty_key: "lstrip (''set//'' @ x) = ''set//'' @ x"
  by (simp add: lstrip_def)

lemma merge_empty_key: "merge_slashes (''set//'' @ x) = ''set/'' @ merge_slashes x"
  by simp

lemma match_empty_key: "match_rule (''set'' # [] # ps) = None"
  by simp









subsection \<open>Reading and writing\<close>

text \<open>
  C1. Read-your-write: for every key \<open>k\<close> and value \<open>v\<close>, \<open>set(k, v)\<close> followed at once
  by \<open>get(k)\<close> on the same store returns \<open>v\<close>. The store is one whose server answers;
  the answer of the read is the 200 response \<open>{key: k, value: v}\<close>.
\<close>

theorem read_your_write:
  "reachable b \<Longrightarrow>
   fst (get_value k (snd (set_value k v b))) =
     Inr \<lparr>status = 200, body = JObject [(''key'', JString k), (''value'', JString v)]\<rparr>"
  by (simp add: set_value_reachable get_value_reachable jsonify_def)

theorem read_your_write_witness:
  "reachable empty_store \<and>
   fst (get_value ''k'' (snd (set_value ''k'' ''v'' empty_store))) =
     Inr \<lparr>status = 200, body = JObject [(''key'', JString ''k''), (''value'', JString ''v'')]\<rparr>"
proof -
  have h: "reachable empty_store"
    by (simp add: empty_store_def)
  show ?thesis
    using h read_your_write [OF h, of "''k''" "''v''"] by simp
qed

text \<open>
  C3. For every key \<open>k\<close> that is absent from the store, \<open>get(k)\<close> returns the 200
  response \<open>{key: k, value: null}\<close>: a normal answer, not an error.
\<close>

theorem get_absent_is_null:
  "reachable b \<Longrightarrow> data b k = None \<Longrightarrow>
   fst (get_value k b) =
     Inr \<lparr>status = 200, body = JObject [(''key'', JString k), (''value'', JNull)]\<rparr> \<and>
   http_status (fst (get_value k b)) = 200"
  by (simp add: get_value_reachable jsonify_def http_status_def)

theorem get_absent_is_null_witness:
  "reachable empty_store \<and> data empty_store ''k'' = None \<and>
   fst (get_value ''k'' empty_store) =
     Inr \<lparr>status = 200, body = JObject [(''key'', JString ''k''), (''value'', JNull)]\<rparr> \<and>
   http_status (fst (get_value ''k'' empty_store)) = 200"
proof -
  have h1: "reachable empty_store"
    by (simp add: empty_store_def)
  have h2: "data empty_store ''k'' = None"
    by (simp add: empty_store_def)
  show ?thesis
    using h1 h2 get_absent_is_null [OF h1 h2] by blast
qed

text \<open>
  C7. For every non-empty key \<open>k\<close> and value \<open>v\<close>, a successful \<open>set(k, v)\<close> stores
  \<open>v\<close> under \<open>k\<close> in the backend and returns a 200 response \<open>{message: ...}\<close> whose
  message carries both \<open>k\<close> and \<open>v\<close>.
\<close>

theorem set_stores_and_echoes:
  "k \<noteq> [] \<Longrightarrow> reachable b \<Longrightarrow>
   fst (set_value k v b) =
     Inr \<lparr>status = 200,
          body = JObject [(''message'',
                   JString (''Stored '' @ k @ '' '' @ arrow @ '' '' @ v @ '' in Redis''))]\<rparr> \<and>
   http_status (fst (set_value k v b)) = 200 \<and>
   data (snd (set_value k v b)) k = Some v"
  by (simp add: set_value_reachable jsonify_def http_status_def)

theorem set_stores_and_echoes_witness:
  "''k'' \<noteq> [] \<and> reachable empty_store \<and>
   fst (set_value ''k'' ''v'' empty_store) =
     Inr \<lparr>status = 200,
          body = JObject [(''message'',
                   JString (''Stored k '' @ arrow @ '' v in Redis''))]\<rparr> \<and>
   http_status (fst (set_value ''k'' ''v'' empty_store)) = 200 \<and>
   data (snd (set_value ''k'' ''v'' empty_store)) ''k'' = Some ''v''"
proof -
  have h1: "''k'' \<noteq> []"
    by simp
  have h2: "reachable empty_store"
    by (simp add: empty_store_def)
  show ?thesis
    using h1 h2 set_stores_and_echoes [OF h1 h2, of "''v''"]
    by (simp add: http_status_def)
qed

subsection \<open>What a request leaves alone\<close>

text \<open>
  C8. The welcome route \<open>GET /\<close> returns the same static 200 payload
  \<open>{message: ..., status: "running"}\<close> for every store state, and leaves the store
  as it was. The view does not call the client, so this holds whether or not the server
  can be reached.
\<close>

theorem home_static_no_effect:
  "fst (home b) =
     Inr \<lparr>status = 200,
          body = JObject [(''message'', JString (''Welcome to DubeBox '' @ rocket)),
                          (''status'', JString ''running'')]\<rparr> \<and>
   http_status (fst (home b)) = 200 \<and>
   snd (home b) = b"
  by (simp add: home_def jsonify_def http_status_def)

text \<open>
  C9. \<open>get(k)\<close> never modifies the store: for every store state and key, the store
  after the request equals the store before it.
\<close>

theorem get_value_no_effect: "snd (get_value k b) = b"
  by (cases "reachable b") (simp_all add: get_value_reachable get_value_unreachable)

text \<open>
  C10. \<open>set(k, v)\<close> affects only the key \<open>k\<close>: for every store state and every key
  \<open>k'\<close> other than \<open>k\<close>, \<open>get(k')\<close> answers the same before and after \<open>set(k, v)\<close>.
\<close>

theorem set_value_frame:
  "k' \<noteq> k \<Longrightarrow> fst (get_value k' (snd (set_value k v b))) = fst (get_value k' b)"
  by (cases "reachable b")
     (simp_all add: set_value_reachable set_value_unreachable
        get_value_reachable get_value_unreachable)

theorem set_value_frame_witness:
  "''j'' \<noteq> ''k'' \<and>
   fst (get_value ''j'' (snd (set_value ''k'' ''v'' (snd (set_value ''j'' ''1'' empty_store))))) =
     fst (get_value ''j'' (snd (set_value ''j'' ''1'' empty_store))) \<and>
   fst (get_value ''j'' (snd (set_value ''j'' ''1'' empty_store))) =
     Inr \<lparr>status = 200, body = JObject [(''key'', JString ''j''), (''value'', JString ''1'')]\<rparr>"
proof -
  have h: "''j'' \<noteq> ''k''"
    by simp
  have g: "fst (get_value ''j'' (snd (set_value ''j'' ''1'' empty_store))) =
      Inr \<lparr>status = 200, body = JObject [(''key'', JString ''j''), (''value'', JString ''1'')]\<rparr>"
    by (simp add: empty_store_def set_value_reachable get_value_reachable jsonify_def)
  show ?thesis
    using h g set_value_frame [OF h, of "''v''" "snd (set_value ''j'' ''1'' empty_store)"]
    by blast
qed

subsection \<open>Failures\<close>

text \<open>
  C6. When the backend cannot be reached, \<open>get(k)\<close> surfaces the backend's error to
  the caller, as a server-error response, and does not mask it as a null result, for
  every key \<open>k\<close>. The error is redis-py's \<open>ConnectionError\<close>; the view does not catch
  it and Flask answers 500.
\<close>

theorem get_unreachable_surfaces_error:
  "\<not> reachable b \<Longrightarrow>
   fst (get_value k b) = Inl ConnectionError \<and>
   http_status (fst (get_value k b)) = 500 \<and>
   fst (get_value k b) \<noteq> Inr (jsonify [(''key'', JString k), (''value'', JNull)])"
  by (simp add: get_value_unreachable http_status_def)

theorem get_unreachable_surfaces_error_witness:
  "\<not> reachable \<lparr>reachable = False, data = Map.empty\<rparr> \<and>
   fst (get_value ''k'' \<lparr>reachable = False, data = Map.empty\<rparr>) = Inl ConnectionError \<and>
   http_status (fst (get_value ''k'' \<lparr>reachable = False, data = Map.empty\<rparr>)) = 500"
proof -
  have h: "\<not> reachable \<lparr>reachable = False, data = Map.empty\<rparr>"
    by simp
  show ?thesis
    using h get_unreachable_surfaces_error [OF h, of "''k''"] by blast
qed

text \<open>
  C2, as the specification has it: every request \<open>set("", x)\<close> with an empty key is
  rejected with an \<open>InvalidInput\<close> error (HTTP 400) before the backend is touched, so
  the store is unchanged. The store is indeed unchanged, but the answer is not a 400
  and there is no \<open>InvalidInput\<close>: \<open>set_value\<close> has no check on its key, and the
  request \<open>GET /set//x\<close> is answered by the router with 404 Not Found.
\<close>

theorem empty_key_request_counterexample:
  "dispatch ''set//x'' empty_store = (NotFound, empty_store) \<and>
   reply_status (fst (dispatch ''set//x'' empty_store)) = 404 \<and>
   reply_status (fst (dispatch ''set//x'' empty_store)) \<noteq> 400"
  by (simp add: dispatch_def lstrip_def reply_status_def)

text \<open>
  C2, amended. Every request \<open>set("", x)\<close> with an empty key, that is
  \<open>GET /set//x\<close>, is refused before any backend interaction, so the store is
  unchanged: the rule \<open>/set/<key>/<value>\<close> matches no empty key and no view is
  called. The answer is the router's 404 Not Found when \<open>x\<close> holds no slash, and 404
  or a redirect to the merged path otherwise; it is never a 400.
\<close>

theorem empty_key_request_not_routed:
  "snd (dispatch (''set//'' @ x) b) = b \<and>
   (fst (dispatch (''set//'' @ x) b) = NotFound \<or>
    fst (dispatch (''set//'' @ x) b) = Redirect (CHR ''/'' # merge_slashes (''set//'' @ x))) \<and>
   reply_status (fst (dispatch (''set//'' @ x) b)) \<noteq> 400 \<and>
   (CHR ''/'' \<notin> set x \<longrightarrow> dispatch (''set//'' @ x) b = (NotFound, b))"
proof -
  let ?p = "''set//'' @ x"
  have first: "match_rule (split_path (lstrip ?p)) = None"
    unfolding lstrip_empty_key split_empty_key by (rule match_empty_key)
  have form: "dispatch ?p b =
      (case match_rule (split_path (merge_slashes ?p)) of
         Some v \<Rightarrow> (Redirect (CHR ''/'' # merge_slashes ?p), b)
       | None \<Rightarrow> (NotFound, b))"
    unfolding dispatch_def first lstrip_empty_key by simp
  have general: "snd (dispatch ?p b) = b \<and>
      (fst (dispatch ?p b) = NotFound \<or>
       fst (dispatch ?p b) = Redirect (CHR ''/'' # merge_slashes ?p)) \<and>
      reply_status (fst (dispatch ?p b)) \<noteq> 400"
    unfolding form by (cases "match_rule (split_path (merge_slashes ?p))")
      (simp_all add: reply_status_def)
  have plain: "dispatch ?p b = (NotFound, b)" if "CHR ''/'' \<notin> set x"
  proof -
    have "merge_slashes ?p = ''set/'' @ x"
      unfolding merge_empty_key using that by (simp add: merge_slashes_no_slash)
    moreover have "split_path (''set/'' @ x) = [''set'', x]"
      using that by (simp add: split_path_no_slash)
    ultimately show ?thesis
      unfolding form by simp
  qed
  from general plain show ?thesis
    by blast
qed

theorem empty_key_request_not_routed_witness:
  "CHR ''/'' \<notin> set ''x'' \<and>
   dispatch ''set//x'' empty_store = (NotFound, empty_store) \<and>
   snd (dispatch ''set//a/b'' empty_store) = empty_store \<and>
   reply_status (fst (dispatch ''set//a/b'' empty_store)) \<noteq> 400"
proof -
  have h: "CHR ''/'' \<notin> set ''x''"
    by simp
  have "dispatch (''set//'' @ ''x'') empty_store = (NotFound, empty_store)"
    using empty_key_request_not_routed [of "''x''" empty_store] h by blast
  moreover have "snd (dispatch (''set//'' @ ''a/b'') empty_store) = empty_store \<and>
      reply_status (fst (dispatch (''set//'' @ ''a/b'') empty_store)) \<noteq> 400"
    using empty_key_request_not_routed [of "''a/b''" empty_store] by blast
  ultimately show ?thesis
    using h by simp
qed

subsection \<open>The bounded cache\<close>



subsection \<open>Configuration\<close>

text \<open>
  C5, as the specification has it: the backend address is read from the environment
  variables \<open>BACKEND_HOST\<close> and \<open>BACKEND_PORT\<close>. The module reads \<open>REDIS_HOST\<close> and
  \<open>REDIS_PORT\<close>: an environment that assigns \<open>BACKEND_HOST=db\<close> and
  \<open>BACKEND_PORT=7000\<close> gives the client the defaults, not \<open>db\<close> and \<open>7000\<close>.
\<close>

theorem backend_vars_counterexample:
  "r [''7000'' \<mapsto> 7000] [''BACKEND_HOST'' \<mapsto> ''db'', ''BACKEND_PORT'' \<mapsto> ''7000''] =
     Inr \<lparr>host = PStr ''localhost'', port = 6379\<rparr> \<and>
   r [''7000'' \<mapsto> 7000] [''BACKEND_HOST'' \<mapsto> ''db'', ''BACKEND_PORT'' \<mapsto> ''7000''] \<noteq>
     Inr \<lparr>host = PStr ''db'', port = 7000\<rparr> \<and>
   [''7000'' \<mapsto> (7000 :: int)] ''7000'' = Some 7000"
  by (simp add: r_def redis_port_def redis_host_def getenv_def py_int_def)

text \<open>
  C5, amended. The service reads its backend address from the environment variables
  \<open>REDIS_HOST\<close> (default \<open>localhost\<close>) and \<open>REDIS_PORT\<close> (default \<open>6379\<close>): for
  every environment that assigns them, the client's host is the value of
  \<open>REDIS_HOST\<close> and its port is the integer that the value of \<open>REDIS_PORT\<close> reads
  as; for every environment that lacks them, the defaults are used. The variables
  \<open>BACKEND_HOST\<close> and \<open>BACKEND_PORT\<close> have no influence.
\<close>

theorem config_from_redis_vars:
  "(env ''REDIS_HOST'' = Some h \<longrightarrow> redis_host env = PStr h) \<and>
   (env ''REDIS_HOST'' = None \<longrightarrow> redis_host env = PStr ''localhost'') \<and>
   (env ''REDIS_PORT'' = Some s \<and> to_int s = Some p \<longrightarrow>
      r to_int env = Inr \<lparr>host = redis_host env, port = p\<rparr>) \<and>
   (env ''REDIS_PORT'' = None \<longrightarrow>
      r to_int env = Inr \<lparr>host = redis_host env, port = 6379\<rparr>) \<and>
   r to_int (env(''BACKEND_HOST'' := x, ''BACKEND_PORT'' := y)) = r to_int env"
proof -
  have host: "redis_host (env(''BACKEND_HOST'' := x, ''BACKEND_PORT'' := y)) = redis_host env"
    by (simp add: redis_host_def getenv_def)
  have port: "redis_port to_int (env(''BACKEND_HOST'' := x, ''BACKEND_PORT'' := y)) =
      redis_port to_int env"
    by (simp add: redis_port_def getenv_def)
  have "r to_int (env(''BACKEND_HOST'' := x, ''BACKEND_PORT'' := y)) = r to_int env"
    unfolding r_def host port ..
  then show ?thesis
    by (simp add: r_def redis_port_def redis_host_def getenv_def py_int_def)
qed

theorem config_from_redis_vars_witness:
  "r [''6380'' \<mapsto> 6380] [''REDIS_HOST'' \<mapsto> ''cache'', ''REDIS_PORT'' \<mapsto> ''6380''] =
     Inr \<lparr>host = PStr ''cache'', port = 6380\<rparr> \<and>
   r [''6380'' \<mapsto> 6380] Map.empty = Inr \<lparr>host = PStr ''localhost'', port = 6379\<rparr>"
proof -
  let ?rd = "[''6380'' \<mapsto> (6380 :: int)]"
  let ?env = "[''REDIS_HOST'' \<mapsto> ''cache'', ''REDIS_PORT'' \<mapsto> ''6380'']"
  have set: "?env ''REDIS_HOST'' = Some ''cache''"
      "?env ''REDIS_PORT'' = Some ''6380'' \<and> ?rd ''6380'' = Some 6380"
    by simp_all
  have unset: "(Map.empty :: environ) ''REDIS_HOST'' = None"
      "(Map.empty :: environ) ''REDIS_PORT'' = None"
    by simp_all
  note a = config_from_redis_vars
    [where env = ?env and h = "''cache''" and s = "''6380''" and to_int = ?rd and p = 6380]
  note b = config_from_redis_vars [where env = Map.empty and to_int = ?rd]
  have "redis_host ?env = PStr ''cache''"
    using a set(1) by blast
  moreover have "r ?rd ?env = Inr \<lparr>host = redis_host ?env, port = 6380\<rparr>"
    using a set(2) by blast
  moreover have "redis_host Map.empty = PStr ''localhost''"
    using b unset(1) by blast
  moreover have "r [''6380'' \<mapsto> 6380] Map.empty = Inr \<lparr>host = redis_host Map.empty, port = 6379\<rparr>"
    using b unset(2) by blast
  ultimately show ?thesis
    by simp
qed

end
